theory Spec2Isabelle
  imports Complex_Main
begin

section \<open>Data model (backend/models/Geofence.js, the schema)\<close>

text \<open>
  JavaScript numbers are modelled as real numbers: rounding and the infinities are outside
  the model, and NaN appears only as the result of arithmetic on \<open>undefined\<close>, where it is
  written out. A value that may be \<open>undefined\<close> or \<open>null\<close> in a stored document is an
  \<open>option\<close>; a field of a request body distinguishes the two, because the update route tests
  \<open>!== undefined\<close>.

  A stored document need not be well formed. The array \<open>coordinates\<close> may be \<open>null\<close> and
  may hold \<open>null\<close> elements. The \<open>center\<close> is a nested path of the schema: the object
  \<open>this.center\<close> always exists, and each of its two numbers may be unset.
\<close>

record coord =
  lat :: real
  lng :: real

record center_path =
  center_lat :: "real option"
  center_lng :: "real option"

datatype geo_coordinates =
    NoCoordinates                              \<comment> \<open>the schema default \<open>[]\<close>\<close>
  | Position "real option \<times> real option"      \<comment> \<open>\<open>[lng, lat]\<close>, a component may be \<open>undefined\<close>\<close>
  | Rings "(real \<times> real) list list"             \<comment> \<open>\<open>[[[lng, lat], ...]]\<close>\<close>

record geometry =
  gtype :: string
  gcoordinates :: geo_coordinates

record geofence =
  name :: string
  description :: "string option"
  coordinates :: "coord option list option"
  geometry :: geometry
  type :: string
  center :: center_path
  radius :: "real option"
  color :: string
  fillColor :: string
  fillOpacity :: "real option"
  strokeWeight :: "real option"
  isActive :: bool
  createdBy :: string
  tags :: "string list"

datatype error = TypeError | ValidationError string

section \<open>Containment (containsPoint, calculateDistance, pointInPolygon)\<close>

text \<open>\<open>Math.atan2(y, x)\<close> on real arguments.\<close>

definition Math_atan2 :: "real \<Rightarrow> real \<Rightarrow> real" where
  "Math_atan2 y x =
     (if 0 < x then arctan (y / x)
      else if x < 0 \<and> 0 \<le> y then arctan (y / x) + pi
      else if x < 0 then arctan (y / x) - pi
      else if 0 < y then pi / 2
      else if y < 0 then - (pi / 2)
      else 0)"

definition calculateDistance :: "real \<Rightarrow> real \<Rightarrow> real \<Rightarrow> real \<Rightarrow> real" where
  "calculateDistance lat1 lng1 lat2 lng2 =
     (let R = 6371000;
          dLat = (lat2 - lat1) * pi / 180;
          dLng = (lng2 - lng1) * pi / 180;
          a = sin (dLat / 2) * sin (dLat / 2) +
              cos (lat1 * pi / 180) * cos (lat2 * pi / 180) *
              sin (dLng / 2) * sin (dLng / 2);
          c = 2 * Math_atan2 (sqrt a) (sqrt (1 - a))
      in R * c)"

text \<open>
  \<open>coordinates[k]\<close>: an index outside the array reads \<open>undefined\<close> and a \<open>null\<close> element
  reads \<open>null\<close>; the property access \<open>.lat\<close> on either throws a TypeError.
\<close>

definition at_index :: "coord option list \<Rightarrow> int \<Rightarrow> coord option" where
  "at_index cs k = (if 0 \<le> k \<and> k < int (length cs) then cs ! nat k else None)"

text \<open>
  The loop \<open>for (let i = 0, j = coordinates.length - 1; i < coordinates.length; j = i++)\<close>
  with the flag \<open>inside\<close>. The second conjunct of the test is evaluated only when the first
  holds, so the divisor is never zero where it is used.
\<close>

function pip_loop :: "real \<Rightarrow> real \<Rightarrow> coord option list \<Rightarrow> nat \<Rightarrow> int \<Rightarrow> bool \<Rightarrow> error + bool" where
  "pip_loop qlat qlng cs i j inside =
     (if i < length cs then
        (case (at_index cs (int i), at_index cs j) of
           (Some ci, Some cj) \<Rightarrow>
             pip_loop qlat qlng cs (i + 1) (int i)
               (if ((lat ci > qlat) \<noteq> (lat cj > qlat)) \<and>
                   (qlng < (lng cj - lng ci) * (qlat - lat ci) / (lat cj - lat ci) + lng ci)
                then \<not> inside else inside)
         | _ \<Rightarrow> Inl TypeError)
      else Inr inside)"
  by pat_completeness auto
termination
  by (relation "measure (\<lambda>(qlat, qlng, cs, i, j, inside). length cs - i)") auto

definition pointInPolygon :: "real \<Rightarrow> real \<Rightarrow> coord option list \<Rightarrow> error + bool" where
  "pointInPolygon qlat qlng cs = pip_loop qlat qlng cs 0 (int (length cs) - 1) False"

text \<open>\<open>this.radius\<close> as a condition: a number is truthy unless it is 0 (or absent).\<close>

definition truthy_number :: "real option \<Rightarrow> bool" where
  "truthy_number r = (case r of None \<Rightarrow> False | Some x \<Rightarrow> x \<noteq> 0)"

text \<open>
  \<open>containsPoint\<close>. In the first test \<open>this.center\<close> is an object and so always truthy. When
  a number of the center is unset, \<open>calculateDistance\<close> computes with \<open>undefined\<close>, the
  distance is NaN, and \<open>distance <= this.radius\<close> is false. The second test reads
  \<open>this.coordinates.length\<close> without a guard: on a \<open>null\<close> array this throws a TypeError.
\<close>

definition containsPoint :: "geofence \<Rightarrow> real \<Rightarrow> real \<Rightarrow> error + bool" where
  "containsPoint g qlat qlng =
     (if type g = ''circle'' \<and> truthy_number (radius g) then
        (case (center_lat (center g), center_lng (center g)) of
           (Some clat, Some clng) \<Rightarrow>
             (let distance = calculateDistance qlat qlng clat clng
              in Inr (distance \<le> the (radius g)))
         | _ \<Rightarrow> Inr False)
      else if type g = ''polygon'' then
        (case coordinates g of
           None \<Rightarrow> Inl TypeError
         | Some cs \<Rightarrow> if length cs \<ge> 3 then pointInPolygon qlat qlng cs else Inr False)
      else Inr False)"


section \<open>Geometry normalisation (the pre-save hook)\<close>

text \<open>\<open>this.coordinates.map(coord => [coord.lng, coord.lat])\<close>\<close>

definition geoCoords_of :: "coord list \<Rightarrow> (real \<times> real) list" where
  "geoCoords_of cs = map (\<lambda>coord. (lng coord, lat coord)) cs"

text \<open>
  The closing step on \<open>geoCoords\<close>: compare the first and the last pair component by
  component and push the first pair when they differ. On an empty array
  \<open>geoCoords[0][0]\<close> reads a property of \<open>undefined\<close> and throws.
\<close>

definition close_ring :: "(real \<times> real) list \<Rightarrow> error + (real \<times> real) list" where
  "close_ring geoCoords =
     (if geoCoords = [] then Inl TypeError
      else if fst (geoCoords ! 0) \<noteq> fst (geoCoords ! (length geoCoords - 1)) \<or>
              snd (geoCoords ! 0) \<noteq> snd (geoCoords ! (length geoCoords - 1))
           then Inr (geoCoords @ [geoCoords ! 0])
           else Inr geoCoords)"

text \<open>
  \<open>this.coordinates.map(...)\<close> followed by the closing step, on the stored array: the
  callback reads \<open>coord.lng\<close>, which throws a TypeError on a \<open>null\<close> element.
\<close>

definition ring_of :: "coord option list \<Rightarrow> error + (real \<times> real) list" where
  "ring_of cs =
     (case those cs of
        None \<Rightarrow> Inl TypeError
      | Some vs \<Rightarrow> close_ring (geoCoords_of vs))"

text \<open>
  The hook, given Mongoose's change tracking \<open>isModified\<close>. It always ends in \<open>next()\<close>
  without an argument; the only way it can fail is an exception thrown on the way. In the
  first test \<open>this.center\<close> is always truthy, so a circle always gets a point geometry, with
  \<open>undefined\<close> components where the center is unset. The conjunct \<open>this.coordinates\<close> of the
  other tests fails on a \<open>null\<close> array.
\<close>

definition pre_save :: "(string \<Rightarrow> bool) \<Rightarrow> geofence \<Rightarrow> error + geofence" where
  "pre_save isModified g =
     (if isModified ''coordinates'' \<or> isModified ''type'' \<or>
         isModified ''center'' \<or> isModified ''radius'' then
        (if type g = ''circle'' then
           Inr (g\<lparr>geometry := \<lparr>gtype = ''Point'',
                  gcoordinates = Position (center_lng (center g), center_lat (center g))\<rparr>\<rparr>)
         else if type g = ''polygon'' \<and> coordinates g \<noteq> None \<and>
                 length (the (coordinates g)) \<ge> 3 then
           (case ring_of (the (coordinates g)) of
              Inl e \<Rightarrow> Inl e
            | Inr geoCoords \<Rightarrow>
                Inr (g\<lparr>geometry := \<lparr>gtype = ''Polygon'', gcoordinates = Rings [geoCoords]\<rparr>\<rparr>))
         else if type g = ''rectangle'' \<and> coordinates g \<noteq> None \<and>
                 length (the (coordinates g)) \<ge> 2 then
           (case ring_of (the (coordinates g)) of
              Inl e \<Rightarrow> Inl e
            | Inr geoCoords \<Rightarrow>
                Inr (g\<lparr>geometry := \<lparr>gtype = ''Polygon'', gcoordinates = Rings [geoCoords]\<rparr>\<rparr>))
         else Inr g)
      else Inr g)"

text \<open>A change tracker that reports exactly the listed paths as modified.\<close>

definition modified_paths :: "string list \<Rightarrow> string \<Rightarrow> bool" where
  "modified_paths ps p = (p \<in> set ps)"

section \<open>Schema validation and save\<close>

text \<open>
  The validators declared in the schema, which Mongoose runs before the pre-save hooks:
  \<open>required\<close>, \<open>maxlength\<close>, \<open>min\<close>, \<open>max\<close> and \<open>enum\<close>. A \<open>min\<close>/\<open>max\<close> validator
  passes an absent value, and a \<open>null\<close> array or element has nothing to validate. The
  \<open>trim\<close> setters are not modelled.
\<close>

definition in_bounds :: "real \<Rightarrow> real \<Rightarrow> real option \<Rightarrow> bool" where
  "in_bounds lo hi v = (case v of None \<Rightarrow> True | Some x \<Rightarrow> lo \<le> x \<and> x \<le> hi)"

definition valid_coord :: "coord \<Rightarrow> bool" where
  "valid_coord c = (- 90 \<le> lat c \<and> lat c \<le> 90 \<and> - 180 \<le> lng c \<and> lng c \<le> 180)"

definition validate :: "geofence \<Rightarrow> error + unit" where
  "validate g =
     (if name g = [] \<or> length (name g) > 100 then Inl (ValidationError ''name'')
      else if (case description g of None \<Rightarrow> False | Some d \<Rightarrow> length d > 500)
        then Inl (ValidationError ''description'')
      else if (case coordinates g of
                 None \<Rightarrow> False
               | Some cs \<Rightarrow> \<not> list_all (\<lambda>c. case c of None \<Rightarrow> True | Some v \<Rightarrow> valid_coord v) cs)
        then Inl (ValidationError ''coordinates'')
      else if gtype (geometry g) \<notin> {''Point'', ''Polygon''}
        then Inl (ValidationError ''geometry.type'')
      else if type g \<notin> {''polygon'', ''circle'', ''rectangle''} then Inl (ValidationError ''type'')
      else if \<not> in_bounds (- 90) 90 (center_lat (center g)) \<or>
              \<not> in_bounds (- 180) 180 (center_lng (center g))
        then Inl (ValidationError ''center'')
      else if (case radius g of None \<Rightarrow> False | Some r \<Rightarrow> r < 0)
        then Inl (ValidationError ''radius'')
      else if \<not> in_bounds 0 1 (fillOpacity g) then Inl (ValidationError ''fillOpacity'')
      else if \<not> in_bounds 1 10 (strokeWeight g) then Inl (ValidationError ''strokeWeight'')
      else if createdBy g = [] then Inl (ValidationError ''createdBy'')
      else Inr ())"

definition save :: "(string \<Rightarrow> bool) \<Rightarrow> geofence \<Rightarrow> error + geofence" where
  "save isModified g =
     (case validate g of Inl e \<Rightarrow> Inl e | Inr u \<Rightarrow> pre_save isModified g)"

section \<open>Routes (create, update, check-point)\<close>

text \<open>
  A field of a request body is absent (\<open>undefined\<close>), \<open>null\<close> or a value. The name, the
  type, the coordinates, the colours, the tags and the active flag are, when present, values
  of their declared type; the front end sends \<open>null\<close> for the center and the radius of a
  shape that has none.
\<close>

datatype 'a js = Undefined | Null | Val 'a

record body =
  b_name :: "string option"
  b_description :: "string js"
  b_coordinates :: "coord list option"
  b_type :: "string option"
  b_center :: "coord js"
  b_radius :: "real js"
  b_color :: "string option"
  b_fillColor :: "string option"
  b_fillOpacity :: "real js"
  b_strokeWeight :: "real js"
  b_tags :: "string list option"
  b_isActive :: "bool option"

datatype 'a response = Reply nat 'a | Failure nat string

text \<open>Truthiness of a string, of a number and of an object.\<close>

definition truthy_string :: "string option \<Rightarrow> bool" where
  "truthy_string v = (case v of None \<Rightarrow> False | Some s \<Rightarrow> s \<noteq> [])"

definition truthy_num :: "real js \<Rightarrow> bool" where
  "truthy_num v = (case v of Val x \<Rightarrow> x \<noteq> 0 | _ \<Rightarrow> False)"

definition truthy_object :: "'a js \<Rightarrow> bool" where
  "truthy_object v = (case v of Val x \<Rightarrow> True | _ \<Rightarrow> False)"

definition stored :: "'a js \<Rightarrow> 'a option" where
  "stored v = (case v of Val x \<Rightarrow> Some x | _ \<Rightarrow> None)"

text \<open>The nested path \<open>center\<close> after an object, or nothing, was assigned to it.\<close>

definition center_of :: "coord option \<Rightarrow> center_path" where
  "center_of c =
     (case c of
        None \<Rightarrow> \<lparr>center_lat = None, center_lng = None\<rparr>
      | Some v \<Rightarrow> \<lparr>center_lat = Some (lat v), center_lng = Some (lng v)\<rparr>)"

text \<open>\<open>new Geofence({...})\<close> in the create route, with the schema defaults.\<close>

definition new_Geofence :: "string \<Rightarrow> body \<Rightarrow> geofence" where
  "new_Geofence user b =
     \<lparr> name = the (b_name b),
       description = stored (b_description b),
       coordinates = Some (map Some (the (b_coordinates b))),
       geometry = \<lparr>gtype = ''Point'', gcoordinates = NoCoordinates\<rparr>,
       type = (if truthy_string (b_type b) then the (b_type b) else ''polygon''),
       center = center_of (stored (b_center b)),
       radius = stored (b_radius b),
       color = (if truthy_string (b_color b) then the (b_color b) else ''#FF0000''),
       fillColor = (if truthy_string (b_fillColor b) then the (b_fillColor b) else ''#FF0000''),
       fillOpacity = (if b_fillOpacity b \<noteq> Undefined then stored (b_fillOpacity b) else Some 0.3),
       strokeWeight = (if truthy_num (b_strokeWeight b) then stored (b_strokeWeight b) else Some 2),
       isActive = True,
       createdBy = user,
       tags = (case b_tags b of None \<Rightarrow> [] | Some ts \<Rightarrow> ts) \<rparr>"

text \<open>
  \<open>router.post('/')\<close>. Every path set by the constructor counts as modified on the first
  save. An exception from \<open>save\<close> is caught and answered with status 500.
\<close>

definition create_route :: "string \<Rightarrow> body \<Rightarrow> geofence response" where
  "create_route user b =
     (if \<not> truthy_string (b_name b) \<or> b_coordinates b = None \<or>
         length (the (b_coordinates b)) = 0 then
        Failure 400 ''Name and coordinates are required''
      else if b_type b = Some ''polygon'' \<and> length (the (b_coordinates b)) < 3 then
        Failure 400 ''Polygon must have at least 3 coordinates''
      else if b_type b = Some ''circle'' \<and>
              (\<not> truthy_object (b_center b) \<or> \<not> truthy_num (b_radius b)) then
        Failure 400 ''Circle type requires center and radius''
      else
        (case save (modified_paths [''coordinates'', ''type'', ''center'', ''radius''])
                (new_Geofence user b) of
           Inl e \<Rightarrow> Failure 500 ''Error creating geofence''
         | Inr geofence \<Rightarrow> Reply 201 geofence))"

text \<open>The field assignments of \<open>router.put('/:id')\<close>: a field is replaced unless it is \<open>undefined\<close>.\<close>

definition assign :: "'a js \<Rightarrow> 'a option \<Rightarrow> 'a option" where
  "assign v old = (case v of Undefined \<Rightarrow> old | Null \<Rightarrow> None | Val x \<Rightarrow> Some x)"

definition assign_value :: "'a option \<Rightarrow> 'a \<Rightarrow> 'a" where
  "assign_value v old = (case v of None \<Rightarrow> old | Some x \<Rightarrow> x)"

definition update_fields :: "body \<Rightarrow> geofence \<Rightarrow> geofence" where
  "update_fields b g =
     g\<lparr> name := assign_value (b_name b) (name g),
        description := assign (b_description b) (description g),
        coordinates := (case b_coordinates b of
                          None \<Rightarrow> coordinates g
                        | Some cs \<Rightarrow> Some (map Some cs)),
        type := assign_value (b_type b) (type g),
        center := (case b_center b of
                     Undefined \<Rightarrow> center g
                   | Null \<Rightarrow> center_of None
                   | Val c \<Rightarrow> center_of (Some c)),
        radius := assign (b_radius b) (radius g),
        color := assign_value (b_color b) (color g),
        fillColor := assign_value (b_fillColor b) (fillColor g),
        fillOpacity := assign (b_fillOpacity b) (fillOpacity g),
        strokeWeight := assign (b_strokeWeight b) (strokeWeight g),
        tags := assign_value (b_tags b) (tags g),
        isActive := assign_value (b_isActive b) (isActive g) \<rparr>"

text \<open>
  \<open>router.put('/:id')\<close>, given the document that \<open>findOne\<close> returned (if any) and
  Mongoose's change tracking after the assignments.
\<close>

definition update_route :: "(string \<Rightarrow> bool) \<Rightarrow> geofence option \<Rightarrow> body \<Rightarrow> geofence response" where
  "update_route isModified found b =
     (case found of
        None \<Rightarrow> Failure 404 ''Geofence not found''
      | Some g \<Rightarrow>
          (case save isModified (update_fields b g) of
             Inl e \<Rightarrow> Failure 500 ''Error updating geofence''
           | Inr geofence \<Rightarrow> Reply 200 geofence))"

text \<open>
  \<open>geofences.filter(geofence => geofence.containsPoint(lat, lng))\<close>: the elements for
  which the callback returns true, in order; an exception in the callback ends the filter.
\<close>

fun containingGeofences :: "geofence list \<Rightarrow> real \<Rightarrow> real \<Rightarrow> error + geofence list" where
  "containingGeofences [] qlat qlng = Inr []"
| "containingGeofences (g # gs) qlat qlng =
     (case containsPoint g qlat qlng of
        Inl e \<Rightarrow> Inl e
      | Inr b \<Rightarrow>
          (case containingGeofences gs qlat qlng of
             Inl e \<Rightarrow> Inl e
           | Inr rest \<Rightarrow> Inr (if b then g # rest else rest)))"

record check_data =
  point :: coord
  isInside :: bool
  geofences :: "geofence list"
  count :: nat

text \<open>\<open>Geofence.find({createdBy: req.user.id, isActive: true})\<close> over the stored documents.\<close>

definition find_active :: "string \<Rightarrow> geofence list \<Rightarrow> geofence list" where
  "find_active user docs = filter (\<lambda>g. createdBy g = user \<and> isActive g) docs"

text \<open>\<open>router.post('/check-point')\<close>\<close>

definition check_point :: "string \<Rightarrow> real js \<Rightarrow> real js \<Rightarrow> geofence list \<Rightarrow> check_data response" where
  "check_point user qlat qlng docs =
     (if \<not> truthy_num qlat \<or> \<not> truthy_num qlng then
        Failure 400 ''Latitude and longitude are required''
      else
        (case containingGeofences (find_active user docs) (the (stored qlat)) (the (stored qlng)) of
           Inl e \<Rightarrow> Failure 500 ''Error checking point''
         | Inr containing \<Rightarrow>
             Reply 200 \<lparr> point = \<lparr>lat = the (stored qlat), lng = the (stored qlng)\<rparr>,
                         isInside = (length containing > 0),
                         geofences = containing,
                         count = length containing \<rparr>))"

section \<open>The specification's wording of the algorithms\<close>

text \<open>
  The even-odd ray-casting test as the specification words it: every vertex is paired with
  its predecessor, index 0 with the last index; an edge crosses when exactly one end point
  lies strictly north of the query latitude and the edge meets the query latitude strictly
  east of the query longitude; each crossing toggles the flag.
\<close>

definition pred_index :: "nat \<Rightarrow> nat \<Rightarrow> nat" where
  "pred_index n i = (if i = 0 then n - 1 else i - 1)"

definition x_intersection :: "coord \<Rightarrow> coord \<Rightarrow> real \<Rightarrow> real" where
  "x_intersection vi vj qlat =
     (lng vj - lng vi) * (qlat - lat vi) / (lat vj - lat vi) + lng vi"

definition crossing_spec :: "real \<Rightarrow> real \<Rightarrow> coord \<Rightarrow> coord \<Rightarrow> bool" where
  "crossing_spec qlat qlng vi vj =
     (((lat vi > qlat \<and> \<not> lat vj > qlat) \<or> (\<not> lat vi > qlat \<and> lat vj > qlat)) \<and>
      x_intersection vi vj qlat > qlng)"

definition ray_casting_spec :: "real \<Rightarrow> real \<Rightarrow> coord list \<Rightarrow> bool" where
  "ray_casting_spec qlat qlng vs =
     fold (\<lambda>i flag. if crossing_spec qlat qlng (vs ! i) (vs ! pred_index (length vs) i)
                     then \<not> flag else flag)
          [0..<length vs] False"

definition crossing_at :: "real \<Rightarrow> real \<Rightarrow> coord list \<Rightarrow> nat \<Rightarrow> bool" where
  "crossing_at qlat qlng vs i =
     crossing_spec qlat qlng (vs ! i) (vs ! pred_index (length vs) i)"



text \<open>
  Shape fields that are structurally insufficient for the declared kind, as the
  specification lists them.
\<close>

definition vertex_count :: "geofence \<Rightarrow> nat" where
  "vertex_count g = (case coordinates g of None \<Rightarrow> 0 | Some cs \<Rightarrow> length cs)"

definition insufficient :: "geofence \<Rightarrow> bool" where
  "insufficient g =
     ((type g = ''circle'' \<and> center g = center_of None) \<or>
      (type g = ''polygon'' \<and> vertex_count g < 3) \<or>
      (type g = ''rectangle'' \<and> vertex_count g < 2))"

text \<open>A ring of \<open>[lng, lat]\<close> pairs read back as coordinates.\<close>

definition coords_of_ring :: "(real \<times> real) list \<Rightarrow> coord list" where
  "coords_of_ring ring = map (\<lambda>p. \<lparr>lat = snd p, lng = fst p\<rparr>) ring"

section \<open>Example documents\<close>

text \<open>
  A well-formed document of the given type with the given vertices, center and radius, and
  the schema defaults elsewhere.
\<close>

definition shape :: "string \<Rightarrow> coord list \<Rightarrow> coord option \<Rightarrow> real option \<Rightarrow> geofence" where
  "shape t cs c r =
     \<lparr> name = ''Geofence'', description = None, coordinates = Some (map Some cs),
       geometry = \<lparr>gtype = ''Point'', gcoordinates = NoCoordinates\<rparr>,
       type = t, center = center_of c, radius = r,
       color = ''#FF0000'', fillColor = ''#FF0000'', fillOpacity = Some 0.3,
       strokeWeight = Some 2, isActive = True, createdBy = ''u1'', tags = [] \<rparr>"

definition pt :: "real \<Rightarrow> real \<Rightarrow> coord" where
  "pt la lo = \<lparr>lat = la, lng = lo\<rparr>"

text \<open>A request body with no field set.\<close>

definition empty_body :: body where
  "empty_body =
     \<lparr> b_name = None, b_description = Undefined, b_coordinates = None, b_type = None,
       b_center = Undefined, b_radius = Undefined, b_color = None, b_fillColor = None,
       b_fillOpacity = Undefined, b_strokeWeight = Undefined, b_tags = None,
       b_isActive = None \<rparr>"

text \<open>Two documents as a successful create leaves them: a circle and a square polygon.\<close>

definition stored_circle :: geofence where
  "stored_circle =
     (shape ''circle'' [pt 10 20] (Some (pt 10 20)) (Some 1000))
       \<lparr>geometry := \<lparr>gtype = ''Point'', gcoordinates = Position (Some 20, Some 10)\<rparr>\<rparr>"

definition stored_square :: geofence where
  "stored_square =
     (shape ''polygon'' [pt 0 0, pt 0 10, pt 10 10, pt 10 0] None None)
       \<lparr>geometry := \<lparr>gtype = ''Polygon'',
          gcoordinates = Rings [[(0, 0), (10, 0), (10, 10), (0, 10), (0, 0)]]\<rparr>\<rparr>"

section \<open>The ray-casting loop\<close>

lemma at_index_vertex: "i < length vs \<Longrightarrow> at_index (map Some vs) (int i) = Some (vs ! i)"
  by (simp add: at_index_def)

lemma at_index_nat: "i < length cs \<Longrightarrow> at_index cs (int i) = cs ! i"
  by (simp add: at_index_def)

lemma pred_index_less: "i < n \<Longrightarrow> pred_index n i < n"
  by (auto simp: pred_index_def)

lemma pip_loop_done: "length cs \<le> i \<Longrightarrow> pip_loop qlat qlng cs i j b = Inr b"
  by (subst pip_loop.simps) simp

lemma pip_loop_fold:
  "i < length vs \<longrightarrow> j = int (pred_index (length vs) i) \<Longrightarrow>
   pip_loop qlat qlng (map Some vs) i j b =
     Inr (fold (\<lambda>i flag. if crossing_spec qlat qlng (vs ! i) (vs ! pred_index (length vs) i)
                          then \<not> flag else flag) [i..<length vs] b)"
proof (induction "length vs - i" arbitrary: i j b)
  case 0
  then show ?case by (simp add: pip_loop_done)
next
  case (Suc n)
  let ?p = "pred_index (length vs) i"
  have lt: "i < length vs" using Suc.hyps(2) by simp
  have j: "j = int ?p" using lt Suc.prems by simp
  have aj: "at_index (map Some vs) j = Some (vs ! ?p)"
    using j pred_index_less[OF lt] by (simp add: at_index_vertex)
  have ai: "at_index (map Some vs) (int i) = Some (vs ! i)"
    using lt by (simp add: at_index_vertex)
  have nxt: "i + 1 < length vs \<longrightarrow> int i = int (pred_index (length vs) (i + 1))"
    by (simp add: pred_index_def)
  have m: "n = length vs - (i + 1)" using Suc.hyps(2) by simp
  have upt: "[i..<length vs] = i # [i + 1..<length vs]"
    using lt by (simp add: upt_conv_Cons)
  have step: "pip_loop qlat qlng (map Some vs) i j b =
      pip_loop qlat qlng (map Some vs) (i + 1) (int i)
        (if crossing_spec qlat qlng (vs ! i) (vs ! ?p) then \<not> b else b)"
    apply (subst pip_loop.simps)
    apply (simp only: length_map lt if_True ai aj prod.case option.case)
    apply (simp add: crossing_spec_def x_intersection_def)
    done
  show ?case
    unfolding step upt using Suc.hyps(1)[OF m nxt] by simp
qed

lemma pointInPolygon_ray_casting:
  "pointInPolygon qlat qlng (map Some vs) = Inr (ray_casting_spec qlat qlng vs)"
proof -
  have "0 < length vs \<longrightarrow> int (length (map Some vs)) - 1 = int (pred_index (length vs) 0)"
    by (cases vs) (auto simp: pred_index_def)
  then show ?thesis
    unfolding pointInPolygon_def ray_casting_spec_def by (rule pip_loop_fold)
qed

lemma pip_loop_null:
  "i \<le> k \<Longrightarrow> k < length cs \<Longrightarrow> cs ! k = None \<Longrightarrow>
   pip_loop qlat qlng cs i j b = Inl TypeError"
proof (induction "k - i" arbitrary: i j b)
  case 0
  then have ik: "i = k" by simp
  have "at_index cs (int i) = None" using 0 ik by (simp add: at_index_nat)
  then show ?case using 0 ik by (subst pip_loop.simps) simp
next
  case (Suc n)
  have lt: "i < length cs" using Suc by simp
  have m: "n = k - Suc i" and le: "Suc i \<le> k" using Suc.hyps(2) by simp_all
  note IH = Suc.hyps(1)[OF m le Suc.prems(2) Suc.prems(3)]
  show ?case
    apply (subst pip_loop.simps)
    apply (simp only: lt if_True)
    apply (cases "at_index cs (int i)"; cases "at_index cs j")
       apply (simp_all add: IH del: pip_loop.simps)
    done
qed

lemma pointInPolygon_null:
  "None \<in> set cs \<Longrightarrow> pointInPolygon qlat qlng cs = Inl TypeError"
proof -
  assume "None \<in> set cs"
  then obtain k where "k < length cs" "cs ! k = None" by (auto simp: in_set_conv_nth)
  then show ?thesis unfolding pointInPolygon_def by (intro pip_loop_null[of 0 k]) simp_all
qed

lemma vertices_or_null: "None \<in> set cs \<or> (\<exists>vs. cs = map Some vs)"
proof (cases "None \<in> set cs")
  case False
  then have "cs = map Some (map the cs)" by (induction cs) auto
  then show ?thesis by blast
qed simp

lemma fold_toggle:
  "fold (\<lambda>i flag. if P i then \<not> flag else flag) xs b = (b \<noteq> odd (length (filter P xs)))"
  by (induction xs arbitrary: b) auto

lemma ray_casting_parity:
  "ray_casting_spec qlat qlng vs = odd (length (filter (crossing_at qlat qlng vs) [0..<length vs]))"
  unfolding ray_casting_spec_def crossing_at_def[abs_def] by (simp add: fold_toggle)

lemma crossing_spec_same: "\<not> crossing_spec qlat qlng v v"
  by (simp add: crossing_spec_def)

lemma closed_crossings:
  assumes "cs \<noteq> []"
  shows "length (filter (crossing_at qlat qlng (cs @ [cs ! 0])) [0..<length (cs @ [cs ! 0])])
       = length (filter (crossing_at qlat qlng cs) [0..<length cs])"
proof -
  let ?n = "length cs"
  let ?cs' = "cs @ [cs ! 0]"
  let ?P' = "crossing_at qlat qlng ?cs'"
  let ?P = "crossing_at qlat qlng cs"
  have n: "0 < ?n" using assms by simp
  have first: "\<not> ?P' 0"
    using n by (simp add: crossing_at_def pred_index_def nth_append crossing_spec_same)
  have last: "?P' ?n = ?P 0"
    using n by (simp add: crossing_at_def pred_index_def nth_append)
  have mid: "\<And>i. i \<in> set [1..<?n] \<Longrightarrow> ?P' i = ?P i"
    by (auto simp: crossing_at_def pred_index_def nth_append)
  have l': "[0..<length ?cs'] = 0 # [1..<?n] @ [?n]"
    using n by (simp add: upt_conv_Cons)
  have l: "[0..<?n] = 0 # [1..<?n]"
    using n by (simp add: upt_conv_Cons)
  have "filter ?P' [1..<?n] = filter ?P [1..<?n]"
    using mid by (rule filter_cong[OF refl])
  then show ?thesis
    unfolding l' l using first last by simp
qed

lemma ray_casting_closed:
  "vs \<noteq> [] \<Longrightarrow> ray_casting_spec qlat qlng (vs @ [hd vs]) = ray_casting_spec qlat qlng vs"
  unfolding ray_casting_parity using closed_crossings[of vs] by (simp add: hd_conv_nth)



lemmas eval_contains = containsPoint_def shape_def center_of_def pointInPolygon_def
  at_index_def pt_def

section \<open>Rectangles in the containment test\<close>

text \<open>
  C1. The specification has a rectangle evaluated like a polygon, so that the rectangle with
  corners (10,10), (10,0), (0,0), (0,10) contains the point (5,5). \<open>containsPoint\<close> has
  no branch for the type \<open>rectangle\<close>: the document falls through to \<open>return false\<close>,
  although the ray-casting test over the same four corners answers true.
\<close>

theorem rectangle_never_contains:
  "containsPoint (shape ''rectangle'' [pt 10 10, pt 10 0, pt 0 0, pt 0 10] None None) 5 5 = Inr False
   \<and> pointInPolygon 5 5 (map Some [pt 10 10, pt 10 0, pt 0 0, pt 0 10]) = Inr True"
  by (simp add: eval_contains)

section \<open>Polygons: the loop is the even-odd ray-casting test\<close>

text \<open>
  C4. For a geofence of type \<open>polygon\<close> whose coordinates are at least 3 vertices,
  \<open>containsPoint\<close> returns the even-odd ray-casting result in the specification's wording:
  each vertex paired with its predecessor (index 0 with the last index), a crossing when
  exactly one end point has a latitude strictly above the query latitude and the
  intersection longitude is strictly above the query longitude, and a flag toggled at each
  crossing.
\<close>

theorem containsPoint_polygon_ray_casting:
  "type g = ''polygon'' \<Longrightarrow> coordinates g = Some (map Some vs) \<Longrightarrow> 3 \<le> length vs \<Longrightarrow>
   containsPoint g qlat qlng = Inr (ray_casting_spec qlat qlng vs)"
  by (simp add: containsPoint_def pointInPolygon_ray_casting)

theorem containsPoint_polygon_ray_casting_witness:
  "type (shape ''polygon'' [pt 0 0, pt 0 10, pt 10 10, pt 10 0] None None) = ''polygon''
   \<and> coordinates (shape ''polygon'' [pt 0 0, pt 0 10, pt 10 10, pt 10 0] None None)
       = Some (map Some [pt 0 0, pt 0 10, pt 10 10, pt 10 0])
   \<and> 3 \<le> length [pt 0 0, pt 0 10, pt 10 10, pt 10 0]
   \<and> containsPoint (shape ''polygon'' [pt 0 0, pt 0 10, pt 10 10, pt 10 0] None None) 5 5 = Inr True
   \<and> containsPoint (shape ''polygon'' [pt 0 0, pt 0 10, pt 10 10, pt 10 0] None None) 20 20 = Inr False"
proof -
  let ?vs = "[pt 0 0, pt 0 10, pt 10 10, pt 10 0]"
  let ?g = "shape ''polygon'' ?vs None None"
  have t: "type ?g = ''polygon''" by (simp add: shape_def)
  have c: "coordinates ?g = Some (map Some ?vs)" by (simp add: shape_def)
  have l: "3 \<le> length ?vs" by simp
  have a: "ray_casting_spec 5 5 ?vs = True"
    by (simp add: ray_casting_spec_def upt_conv_Cons pred_index_def crossing_spec_def
        x_intersection_def pt_def)
  have b: "ray_casting_spec 20 20 ?vs = False"
    by (simp add: ray_casting_spec_def upt_conv_Cons pred_index_def crossing_spec_def
        x_intersection_def pt_def)
  show ?thesis
    using containsPoint_polygon_ray_casting[OF t c l, of 5 5]
          containsPoint_polygon_ray_casting[OF t c l, of 20 20] t c l a b
    by simp
qed

section \<open>Ring closure does not change the ray-casting result\<close>

text \<open>
  C8. For a vertex list of at least 3 coordinates and any query point, \<open>pointInPolygon\<close>
  on the list with a copy of its first vertex appended returns what it returns on the list
  itself. This holds for any array of at least 3 elements: with a \<open>null\<close> element both
  calls throw.
\<close>

theorem pointInPolygon_closed_ring:
  "3 \<le> length cs \<Longrightarrow> pointInPolygon qlat qlng (cs @ [hd cs]) = pointInPolygon qlat qlng cs"
proof -
  assume len: "3 \<le> length cs"
  then have ne: "cs \<noteq> []" by auto
  show ?thesis
  proof (cases "None \<in> set cs")
    case True
    then have "None \<in> set (cs @ [hd cs])" by simp
    then show ?thesis using True by (simp only: pointInPolygon_null)
  next
    case False
    then obtain vs where vs: "cs = map Some vs" using vertices_or_null by blast
    then have nv: "vs \<noteq> []" using ne by simp
    then have "cs @ [hd cs] = map Some (vs @ [hd vs])" using vs by (simp add: hd_map)
    then have "pointInPolygon qlat qlng (cs @ [hd cs])
        = Inr (ray_casting_spec qlat qlng (vs @ [hd vs]))"
      by (simp only: pointInPolygon_ray_casting)
    also have "\<dots> = Inr (ray_casting_spec qlat qlng vs)"
      using ray_casting_closed[OF nv] by simp
    also have "\<dots> = pointInPolygon qlat qlng cs"
      unfolding vs by (simp only: pointInPolygon_ray_casting)
    finally show ?thesis .
  qed
qed

theorem pointInPolygon_closed_ring_witness:
  "3 \<le> length (map Some [pt 0 0, pt 0 10, pt 10 10, pt 10 0])
   \<and> pointInPolygon 5 5 (map Some [pt 0 0, pt 0 10, pt 10 10, pt 10 0]
        @ [hd (map Some [pt 0 0, pt 0 10, pt 10 10, pt 10 0])])
       = Inr True"
proof -
  have l: "3 \<le> length (map Some [pt 0 0, pt 0 10, pt 10 10, pt 10 0])" by simp
  have "pointInPolygon 5 5 (map Some [pt 0 0, pt 0 10, pt 10 10, pt 10 0]) = Inr True"
    by (simp add: eval_contains)
  then show ?thesis
    using pointInPolygon_closed_ring[OF l, of 5 5] l by simp
qed

section \<open>The containment test on malformed documents\<close>

lemma containsPoint_degrades:
  "(type g = ''polygon'' \<and> coordinates g = Some cs \<and> length cs < 3 \<longrightarrow>
      containsPoint g qlat qlng = Inr False)
   \<and> (type g = ''circle'' \<and>
        (center_lat (center g) = None \<or> center_lng (center g) = None \<or> radius g = None) \<longrightarrow>
        containsPoint g qlat qlng = Inr False)
   \<and> (type g \<notin> {''polygon'', ''circle'', ''rectangle''} \<longrightarrow> containsPoint g qlat qlng = Inr False)"
  by (auto simp: containsPoint_def truthy_number_def split: option.splits)

text \<open>
  C5. The specification has \<open>contains\<close> answer false, never an exception, on malformed shape
  data. \<open>containsPoint\<close> does so for a polygon with fewer than 3 vertices, a circle
  without center or radius and an unknown type, but it throws a TypeError on a polygon whose
  array of coordinates holds a \<open>null\<close> element (at \<open>coordinates[i].lat\<close>) or is \<open>null\<close>
  (at \<open>this.coordinates.length\<close>, which lacks the guard \<open>this.coordinates &&\<close> of the
  pre-save hook).
\<close>

theorem containsPoint_throws_on_null:
  "containsPoint ((shape ''polygon'' [] None None)
       \<lparr>coordinates := Some [Some (pt 0 0), None, Some (pt 10 10), Some (pt 10 0)]\<rparr>) 5 5
     = Inl TypeError
   \<and> containsPoint ((shape ''polygon'' [] None None)\<lparr>coordinates := None\<rparr>) 5 5
     = Inl TypeError"
  by (simp add: eval_contains)

section \<open>The containing geofences\<close>





section \<open>Ring closing\<close>


lemma close_ring_closed:
  assumes "ps \<noteq> []"
  shows "\<exists>ring. close_ring ps = Inr ring \<and> ring \<noteq> [] \<and> hd ring = last ring"
proof (cases "ps ! 0 = ps ! (length ps - 1)")
  case True
  then have "close_ring ps = Inr ps" using assms by (simp add: close_ring_def)
  moreover have "hd ps = last ps"
    using True assms by (simp add: hd_conv_nth last_conv_nth)
  ultimately show ?thesis using assms by simp
next
  case False
  then have "close_ring ps = Inr (ps @ [ps ! 0])"
    using assms by (auto simp: close_ring_def prod_eq_iff)
  moreover have "hd (ps @ [ps ! 0]) = last (ps @ [ps ! 0])"
    using assms by (cases ps) simp_all
  ultimately show ?thesis by simp
qed

lemma close_ring_fixed:
  assumes "ring \<noteq> []" "hd ring = last ring"
  shows "close_ring ring = Inr ring"
  using assms by (simp add: close_ring_def hd_conv_nth last_conv_nth)

lemma geoCoords_of_ring: "geoCoords_of (coords_of_ring ring) = ring"
  by (simp add: geoCoords_of_def coords_of_ring_def comp_def)

text \<open>
  C7. For a vertex sequence of at least 3 coordinates, one pass of ring closing (map to
  \<open>[lng, lat]\<close> pairs, push the first pair if the first and the last differ) succeeds with a
  ring whose first and last pairs are equal, and a second pass over that ring gives the same
  ring, whether the ring is taken as it is or read back as coordinates.
\<close>

theorem close_ring_idempotent:
  "3 \<le> length cs \<Longrightarrow>
   \<exists>ring. close_ring (geoCoords_of cs) = Inr ring \<and> hd ring = last ring
        \<and> close_ring ring = Inr ring
        \<and> close_ring (geoCoords_of (coords_of_ring ring)) = Inr ring"
proof -
  assume "3 \<le> length cs"
  then have "geoCoords_of cs \<noteq> []" by (auto simp: geoCoords_of_def)
  then obtain ring where r: "close_ring (geoCoords_of cs) = Inr ring" "ring \<noteq> []" "hd ring = last ring"
    using close_ring_closed by blast
  then show ?thesis
    by (simp add: close_ring_fixed geoCoords_of_ring)
qed

theorem close_ring_idempotent_witness:
  "3 \<le> length [pt 0 0, pt 0 10, pt 10 10, pt 10 0]
   \<and> close_ring (geoCoords_of [pt 0 0, pt 0 10, pt 10 10, pt 10 0])
       = Inr [(0, 0), (10, 0), (10, 10), (0, 10), (0, 0)]
   \<and> close_ring [(0, 0), (10, 0), (10, 10), (0, 10), (0, 0)]
       = Inr [(0, 0), (10, 0), (10, 10), (0, 10), (0, 0)]"
proof -
  have l: "3 \<le> length [pt 0 0, pt 0 10, pt 10 10, pt 10 0]" by simp
  have e: "close_ring (geoCoords_of [pt 0 0, pt 0 10, pt 10 10, pt 10 0])
       = Inr [(0, 0), (10, 0), (10, 10), (0, 10), (0, 0)]"
    by (simp add: close_ring_def geoCoords_of_def pt_def)
  show ?thesis
    using close_ring_idempotent[OF l] l e by auto
qed

section \<open>The check-point route and the number 0\<close>


text \<open>
  C10. The check-point route answers 400 \<open>Latitude and longitude are required\<close> whenever
  \<open>lat\<close> or \<open>lng\<close> is absent, null or the number 0, whatever geofences are stored: a
  point on the equator or on the prime meridian is never evaluated.
\<close>

theorem check_point_rejects_zero:
  "qlat \<in> {Undefined, Null, Val 0} \<or> qlng \<in> {Undefined, Null, Val 0} \<Longrightarrow>
   check_point user qlat qlng docs = Failure 400 ''Latitude and longitude are required''"
  by (auto simp: check_point_def truthy_num_def)

theorem check_point_rejects_zero_witness:
  "containsPoint (shape ''polygon'' [pt (-10) (-10), pt (-10) 10, pt 10 10, pt 10 (-10)] None None) 0 5
     = Inr True
   \<and> check_point ''u1'' (Val 0) (Val 5)
       [shape ''polygon'' [pt (-10) (-10), pt (-10) 10, pt 10 10, pt 10 (-10)] None None]
     = Failure 400 ''Latitude and longitude are required''
   \<and> check_point ''u1'' (Val 1) (Val 5)
       [shape ''polygon'' [pt (-10) (-10), pt (-10) 10, pt 10 10, pt 10 (-10)] None None]
     = Reply 200 \<lparr> point = pt 1 5, isInside = True,
          geofences = [shape ''polygon'' [pt (-10) (-10), pt (-10) 10, pt 10 10, pt 10 (-10)] None None],
          count = 1 \<rparr>"
proof -
  let ?g = "shape ''polygon'' [pt (-10) (-10), pt (-10) 10, pt 10 10, pt 10 (-10)] None None"
  have a: "containsPoint ?g 0 5 = Inr True" by (simp add: eval_contains)
  have b: "containsPoint ?g 1 5 = Inr True" by (simp add: eval_contains)
  have f: "find_active ''u1'' [?g] = [?g]" by (simp add: find_active_def shape_def)
  have cg: "containingGeofences [?g] 1 5 = Inr [?g]" using b by simp
  have c: "check_point ''u1'' (Val 1) (Val 5) [?g]
     = Reply 200 \<lparr> point = pt 1 5, isInside = True, geofences = [?g], count = 1 \<rparr>"
    unfolding check_point_def f
    apply (simp add: truthy_num_def stored_def del: containingGeofences.simps)
    apply (simp only: cg)
    apply (simp add: pt_def stored_def)
    done
  show ?thesis
    using check_point_rejects_zero[of "Val 0" "Val 5" "''u1''" "[?g]"] a c by simp
qed

section \<open>Insufficient shape fields\<close>

lemma create_route_rejects_insufficient:
  "b_coordinates b = Some cs \<Longrightarrow>
   (b_type b = Some ''polygon'' \<and> length cs < 3) \<or>
   (b_type b = Some ''circle'' \<and> (b_center b \<in> {Undefined, Null} \<or> b_radius b \<in> {Undefined, Null, Val 0})) \<Longrightarrow>
   \<exists>msg. create_route user b = Failure 400 msg"
  by (auto simp: create_route_def truthy_object_def truthy_num_def)

text \<open>
  The hook signals nothing for a polygon of two vertices: it returns the document as it
  is. The update route then answers 200 for a stored square whose coordinates are replaced
  by two vertices, and the stored ring stays the old one. For a circle without center the
  hook signals nothing either, and it overwrites the geometry with a point of two
  \<open>undefined\<close> numbers.
\<close>

theorem normalizer_signals_no_error_counterexample:
  "insufficient (shape ''polygon'' [pt 0 0, pt 0 10] None None)
   \<and> pre_save (modified_paths [''coordinates'']) (shape ''polygon'' [pt 0 0, pt 0 10] None None)
     = Inr (shape ''polygon'' [pt 0 0, pt 0 10] None None)
   \<and> update_route (modified_paths [''coordinates'']) (Some stored_square)
       (empty_body\<lparr>b_coordinates := Some [pt 0 0, pt 0 10]\<rparr>)
     = Reply 200 (stored_square\<lparr>coordinates := Some [Some (pt 0 0), Some (pt 0 10)]\<rparr>)
   \<and> insufficient (shape ''circle'' [pt 0 0] None (Some 1000))
   \<and> pre_save (modified_paths [''type'']) (shape ''circle'' [pt 0 0] None (Some 1000))
     = Inr ((shape ''circle'' [pt 0 0] None (Some 1000))
         \<lparr>geometry := \<lparr>gtype = ''Point'', gcoordinates = Position (None, None)\<rparr>\<rparr>)"
  by (simp add: insufficient_def vertex_count_def pre_save_def modified_paths_def shape_def
      stored_square_def center_of_def
      update_route_def update_fields_def empty_body_def assign_def assign_value_def
      save_def validate_def valid_coord_def in_bounds_def pt_def)

text \<open>
  C2, as amended. For a polygon with fewer than 3 vertices and for a rectangle with fewer
  than 2, the pre-save hook leaves the geometry, and the whole document, unchanged and
  completes without an error.
\<close>

theorem pre_save_insufficient_unchanged:
  "(type g = ''polygon'' \<and> vertex_count g < 3) \<or> (type g = ''rectangle'' \<and> vertex_count g < 2) \<Longrightarrow>
   pre_save isModified g = Inr g"
  by (auto simp: vertex_count_def pre_save_def split: option.splits)

theorem pre_save_insufficient_unchanged_witness:
  "type (shape ''rectangle'' [pt 10 10] None None) = ''rectangle''
   \<and> vertex_count (shape ''rectangle'' [pt 10 10] None None) = 1
   \<and> pre_save (modified_paths [''coordinates'']) (shape ''rectangle'' [pt 10 10] None None)
     = Inr (shape ''rectangle'' [pt 10 10] None None)
   \<and> type (shape ''polygon'' [pt 0 0, pt 0 10] None None) = ''polygon''
   \<and> vertex_count (shape ''polygon'' [pt 0 0, pt 0 10] None None) = 2
   \<and> pre_save (modified_paths [''coordinates'']) (shape ''polygon'' [pt 0 0, pt 0 10] None None)
     = Inr (shape ''polygon'' [pt 0 0, pt 0 10] None None)"
proof -
  let ?r = "shape ''rectangle'' [pt 10 10] None None"
  let ?p = "shape ''polygon'' [pt 0 0, pt 0 10] None None"
  have r: "type ?r = ''rectangle''" "vertex_count ?r = 1"
    by (simp_all add: shape_def vertex_count_def)
  have p: "type ?p = ''polygon''" "vertex_count ?p = 2"
    by (simp_all add: shape_def vertex_count_def)
  have hr: "(type ?r = ''polygon'' \<and> vertex_count ?r < 3) \<or> (type ?r = ''rectangle'' \<and> vertex_count ?r < 2)"
    using r by simp
  have hp: "(type ?p = ''polygon'' \<and> vertex_count ?p < 3) \<or> (type ?p = ''rectangle'' \<and> vertex_count ?p < 2)"
    using p by simp
  show ?thesis
    using pre_save_insufficient_unchanged[OF hr] pre_save_insufficient_unchanged[OF hp] r p
    by simp
qed

section \<open>Circles: the haversine distance\<close>









section \<open>The radius of a stored circle\<close>

lemma pre_save_keeps:
  "pre_save isModified g = Inr g' \<Longrightarrow> type g' = type g \<and> radius g' = radius g"
  by (auto simp: pre_save_def split: if_splits sum.splits)

lemma validate_radius:
  "validate g = Inr u \<Longrightarrow> radius g = Some r \<Longrightarrow> 0 \<le> r"
  by (auto simp: validate_def split: if_splits)

lemma save_radius:
  assumes "save isModified g = Inr g'"
  shows "type g' = type g" "radius g' = radius g" "\<And>r. radius g = Some r \<Longrightarrow> 0 \<le> r"
proof -
  from assms obtain u where v: "validate g = Inr u" and p: "pre_save isModified g = Inr g'"
    by (auto simp: save_def split: sum.splits)
  show "type g' = type g" "radius g' = radius g" using pre_save_keeps[OF p] by simp_all
  show "\<And>r. radius g = Some r \<Longrightarrow> 0 \<le> r" using validate_radius[OF v] by simp
qed

lemma create_route_saved:
  assumes "create_route user b = Reply st g"
  shows "save (modified_paths [''coordinates'', ''type'', ''center'', ''radius''])
           (new_Geofence user b) = Inr g"
    and "b_type b = Some ''circle'' \<Longrightarrow> truthy_num (b_radius b)"
  using assms by (auto simp: create_route_def split: if_splits sum.splits)

lemma new_Geofence_circle:
  "type (new_Geofence user b) = ''circle'' \<Longrightarrow> b_type b = Some ''circle''"
  by (auto simp: new_Geofence_def truthy_string_def split: if_splits option.splits)

lemma new_Geofence_radius: "radius (new_Geofence user b) = stored (b_radius b)"
  by (simp add: new_Geofence_def)

lemma truthy_num_stored: "truthy_num v \<Longrightarrow> \<exists>x. stored v = Some x \<and> x \<noteq> 0"
  by (cases v) (auto simp: truthy_num_def stored_def)

lemma create_route_circle_radius:
  assumes "create_route user b = Reply st g" "type g = ''circle''"
  shows "\<exists>r. radius g = Some r \<and> 0 < r"
proof -
  let ?n = "new_Geofence user b"
  note s = create_route_saved[OF assms(1)]
  note k = save_radius[OF s(1)]
  have "type ?n = ''circle''" using k(1) assms(2) by simp
  then have "truthy_num (b_radius b)" using s(2) new_Geofence_circle by blast
  then obtain x where x: "stored (b_radius b) = Some x" "x \<noteq> 0"
    using truthy_num_stored by blast
  then have r: "radius ?n = Some x" by (simp add: new_Geofence_radius)
  then have "0 \<le> x" using k(3) by simp
  then show ?thesis using x r k(2) by simp
qed

lemma update_route_radius:
  assumes "update_route isModified found b = Reply st g" "radius g = Some r"
  shows "0 \<le> r"
proof -
  from assms(1) obtain g0 where "save isModified (update_fields b g0) = Inr g"
    by (auto simp: update_route_def split: option.splits sum.splits)
  from save_radius[OF this] assms(2) show ?thesis by simp
qed

text \<open>
  The update route stores a circle of radius 0: the only check on that path is the schema's
  \<open>min: 0\<close>, which 0 passes.
\<close>

theorem update_stores_radius_zero_counterexample:
  "update_route (modified_paths [''radius'']) (Some stored_circle) (empty_body\<lparr>b_radius := Val 0\<rparr>)
     = Reply 200 (stored_circle\<lparr>radius := Some 0\<rparr>)
   \<and> type (stored_circle\<lparr>radius := Some 0\<rparr>) = ''circle''"
  by (simp add: update_route_def update_fields_def empty_body_def assign_def assign_value_def
      stored_circle_def shape_def center_of_def pt_def save_def validate_def valid_coord_def in_bounds_def
      pre_save_def modified_paths_def)

text \<open>
  C9, as amended. A circle that the create route stores has a radius greater than 0 (the
  route takes a radius of 0 for a missing one, the schema refuses a negative one). A
  geofence that the update route stores has, if it has a radius, a radius of at least 0:
  a negative radius is refused there, a radius of 0 is not.
\<close>

theorem stored_radius_bounds:
  "(create_route user b = Reply st g \<and> type g = ''circle'' \<longrightarrow> (\<exists>r. radius g = Some r \<and> 0 < r))
   \<and> (update_route isModified found b' = Reply st' g' \<and> radius g' = Some r' \<longrightarrow> 0 \<le> r')"
proof (intro conjI impI)
  show "\<exists>r. radius g = Some r \<and> 0 < r" if "create_route user b = Reply st g \<and> type g = ''circle''"
    using that create_route_circle_radius by blast
  show "0 \<le> r'" if "update_route isModified found b' = Reply st' g' \<and> radius g' = Some r'"
    using that update_route_radius by blast
qed

theorem stored_radius_bounds_witness:
  "create_route ''u1'' (empty_body\<lparr>b_name := Some ''Geofence'', b_coordinates := Some [pt 10 20],
       b_type := Some ''circle'', b_center := Val (pt 10 20), b_radius := Val 1000\<rparr>)
     = Reply 201 stored_circle
   \<and> type stored_circle = ''circle'' \<and> radius stored_circle = Some 1000 \<and> (0::real) < 1000
   \<and> update_route (modified_paths [''radius'']) (Some stored_circle) (empty_body\<lparr>b_radius := Val 500\<rparr>)
     = Reply 200 (stored_circle\<lparr>radius := Some 500\<rparr>)
   \<and> radius (stored_circle\<lparr>radius := Some 500\<rparr>) = Some 500 \<and> (0::real) \<le> 500
   \<and> update_route (modified_paths [''radius'']) (Some stored_circle) (empty_body\<lparr>b_radius := Val (- 5)\<rparr>)
     = Failure 500 ''Error updating geofence''"
proof -
  let ?b = "empty_body\<lparr>b_name := Some ''Geofence'', b_coordinates := Some [pt 10 20],
       b_type := Some ''circle'', b_center := Val (pt 10 20), b_radius := Val 1000\<rparr>"
  let ?m = "modified_paths [''radius'']"
  have c: "create_route ''u1'' ?b = Reply 201 stored_circle"
    by (simp add: create_route_def new_Geofence_def empty_body_def truthy_string_def
        truthy_num_def truthy_object_def stored_def stored_circle_def
        shape_def center_of_def pt_def save_def validate_def valid_coord_def in_bounds_def pre_save_def
        modified_paths_def)
  have t: "type stored_circle = ''circle''" by (simp add: stored_circle_def shape_def)
  have u: "update_route ?m (Some stored_circle) (empty_body\<lparr>b_radius := Val 500\<rparr>)
     = Reply 200 (stored_circle\<lparr>radius := Some 500\<rparr>)"
    by (simp add: update_route_def update_fields_def empty_body_def assign_def assign_value_def
      stored_circle_def shape_def center_of_def pt_def save_def validate_def valid_coord_def in_bounds_def
      pre_save_def modified_paths_def)
  have r: "radius (stored_circle\<lparr>radius := Some 500\<rparr>) = Some 500" by simp
  have n: "update_route ?m (Some stored_circle) (empty_body\<lparr>b_radius := Val (- 5)\<rparr>)
     = Failure 500 ''Error updating geofence''"
    by (simp add: update_route_def update_fields_def empty_body_def assign_def assign_value_def
      stored_circle_def shape_def center_of_def pt_def save_def validate_def valid_coord_def in_bounds_def)
  have rc: "radius stored_circle = Some 1000" by (simp add: stored_circle_def shape_def)
  show ?thesis
    using stored_radius_bounds[of "''u1''" ?b 201 stored_circle ?m "Some stored_circle"
            "empty_body\<lparr>b_radius := Val 500\<rparr>" 200 "stored_circle\<lparr>radius := Some 500\<rparr>" 500]
          c t u r n rc
    by simp
qed

end
